theory Spec2Isabelle
  imports Complex_Main "HOL-Library.AList"
begin

section \<open>Label co-occurrence clustering: the embedding\<close>

text \<open>
  The development follows \<^verbatim>\<open>skmultilearn/cluster/base.py\<close> (the co-occurrence edge
  map) and \<^verbatim>\<open>skmultilearn/cluster/graphtool.py\<close> (graph assembly, model selection and
  extraction of the label clusters).  Python dictionaries are association lists in
  insertion order (\<open>AList.update\<close> overwrites in place and appends a new key at the end,
  as a \<^verbatim>\<open>dict\<close> does); raised exceptions are the left summand of a sum type.
  Edge weights are Python floats that only ever hold small counts and their halves;
  they are modelled as reals (exact as long as a count stays below \<open>2^53\<close>).
\<close>

subsection \<open>Python values and exceptions\<close>

text \<open>The Python values a constructor flag is modelled to take: \<^verbatim>\<open>None\<close>, a
  \<^verbatim>\<open>bool\<close>, an \<^verbatim>\<open>int\<close>, a \<^verbatim>\<open>float\<close> or a \<^verbatim>\<open>str\<close>.  A float is given by the
  real number it holds; \<^verbatim>\<open>nan\<close> and the infinities, which equal neither \<^verbatim>\<open>True\<close>
  nor \<^verbatim>\<open>False\<close>, are left out.\<close>

datatype pyval = PyNone | PyBool bool | PyInt int | PyFloat real | PyStr string

datatype error = ValueError string | KeyError | TypeError

text \<open>Python's \<^verbatim>\<open>==\<close> on these values: numbers compare by value and \<^verbatim>\<open>bool\<close> is a
  subclass of \<^verbatim>\<open>int\<close>, so \<^verbatim>\<open>True == 1 == 1.0\<close> and \<^verbatim>\<open>False == 0 == 0.0\<close>.\<close>

fun py_eq :: "pyval \<Rightarrow> pyval \<Rightarrow> bool" where
  "py_eq PyNone PyNone = True"
| "py_eq (PyBool a) (PyBool b) = (a = b)"
| "py_eq (PyInt a) (PyInt b) = (a = b)"
| "py_eq (PyFloat a) (PyFloat b) = (a = b)"
| "py_eq (PyBool a) (PyInt b) = ((if a then 1 else 0) = b)"
| "py_eq (PyInt a) (PyBool b) = (a = (if b then 1 else 0))"
| "py_eq (PyBool a) (PyFloat b) = ((if a then 1 else 0) = b)"
| "py_eq (PyFloat a) (PyBool b) = (a = (if b then 1 else 0))"
| "py_eq (PyInt a) (PyFloat b) = (real_of_int a = b)"
| "py_eq (PyFloat a) (PyInt b) = (a = real_of_int b)"
| "py_eq (PyStr a) (PyStr b) = (a = b)"
| "py_eq _ _ = False"

text \<open>\<^verbatim>\<open>x in xs\<close> on a list: some element equals \<open>x\<close>.\<close>

definition py_in :: "pyval \<Rightarrow> pyval list \<Rightarrow> bool" where
  "py_in x xs = list_ex (py_eq x) xs"

text \<open>The truth value Python gives a value in \<^verbatim>\<open>if\<close>, \<^verbatim>\<open>not\<close> and \<^verbatim>\<open>and\<close>.\<close>

fun truthy :: "pyval \<Rightarrow> bool" where
  "truthy PyNone = False"
| "truthy (PyBool b) = b"
| "truthy (PyInt i) = (i \<noteq> 0)"
| "truthy (PyFloat r) = (r \<noteq> 0)"
| "truthy (PyStr s) = (s \<noteq> [])"

text \<open>"Strictly a boolean": the value is \<^verbatim>\<open>True\<close> or \<^verbatim>\<open>False\<close> itself.\<close>

fun strictly_boolean :: "pyval \<Rightarrow> bool" where
  "strictly_boolean (PyBool b) = True"
| "strictly_boolean _ = False"

text \<open>The values that are equal, by \<^verbatim>\<open>==\<close>, to \<^verbatim>\<open>True\<close> or to \<^verbatim>\<open>False\<close>.\<close>

fun equals_a_boolean :: "pyval \<Rightarrow> bool" where
  "equals_a_boolean (PyBool b) = True"
| "equals_a_boolean (PyInt i) = (i = 0 \<or> i = 1)"
| "equals_a_boolean (PyFloat r) = (r = 0 \<or> r = 1)"
| "equals_a_boolean _ = False"

text \<open>The call ended in a \<^verbatim>\<open>ValueError\<close>.\<close>

fun raises_ValueError :: "error + 'a \<Rightarrow> bool" where
  "raises_ValueError (Inl (ValueError msg)) = True"
| "raises_ValueError _ = False"

subsection \<open>\<^verbatim>\<open>LabelCooccurenceClustererBase\<close>\<close>

type_synonym edge_map = "((nat \<times> nat) \<times> real) list"

text \<open>The instance: the three attributes \<^verbatim>\<open>__init__\<close> sets, and the two that
  \<^verbatim>\<open>generate_coocurence_adjacency_matrix\<close> sets (\<open>None\<close> while unset).\<close>

record clusterer =
  is_weighted :: pyval
  include_self_edges :: pyval
  normalize_self_edges :: pyval
  label_count :: "nat option"
  edge_map :: "edge_map option"

text \<open>\<^verbatim>\<open>__init__(self, weighted, include_self_edges, normalize_self_edges)\<close>: four
  checks in the source's order, then the three assignments.\<close>

definition LabelCooccurenceClustererBase_init :: "pyval \<Rightarrow> pyval \<Rightarrow> pyval \<Rightarrow> error + clusterer" where
  "LabelCooccurenceClustererBase_init weighted incl nrm =
     (if \<not> py_in weighted [PyBool True, PyBool False] then
        Inl (ValueError ''Weighted needs to be a boolean'')
      else if \<not> py_in incl [PyBool True, PyBool False] then
        Inl (ValueError ''Decision whether to include self edges needs to be a boolean'')
      else if \<not> py_in nrm [PyBool True, PyBool False] then
        Inl (ValueError ''Decision whether to normalize self edges needs to be a boolean'')
      else if \<not> truthy incl \<and> truthy nrm then
        Inl (ValueError ''Include self edges must be set to true if normalization is true'')
      else
        Inr \<lparr>is_weighted = weighted, include_self_edges = incl,
             normalize_self_edges = nrm, label_count = None, edge_map = None\<rparr>)"

text \<open>A label matrix: its \<^verbatim>\<open>shape\<close> \<open>(n_samples, n_labels)\<close> and its entries row by row.\<close>

record matrix =
  shape :: "nat \<times> nat"
  entries :: "int list list"

definition well_shaped :: "matrix \<Rightarrow> bool" where
  "well_shaped y \<longleftrightarrow>
     length (entries y) = fst (shape y) \<and> list_all (\<lambda>r. length r = snd (shape y)) (entries y)"

text \<open>The list-of-lists sparse format: \<^verbatim>\<open>rows[k]\<close> holds the column indices of the
  non-zero entries of row \<open>k\<close>, ascending.\<close>

record lil_matrix =
  lil_shape :: "nat \<times> nat"
  rows :: "nat list list"

text \<open>Modelled from the spec: \<^verbatim>\<open>get_matrix_in_format\<close> of \<^verbatim>\<open>skmultilearn.utils\<close> is
  not among the sources (the spec calls it an input-format coercion utility); with
  format \<^verbatim>\<open>'lil'\<close> it converts the matrix to scipy's list-of-lists format, keeping the
  shape.\<close>

definition nonzero_columns :: "int list \<Rightarrow> nat list" where
  "nonzero_columns r = filter (\<lambda>j. r ! j \<noteq> 0) [0..<length r]"

definition get_matrix_in_format_lil :: "matrix \<Rightarrow> lil_matrix" where
  "get_matrix_in_format_lil y = \<lparr>lil_shape = shape y, rows = map nonzero_columns (entries y)\<rparr>"

text \<open>The two list comprehensions over a row (\<open>b\<close> is the outer loop).\<close>

definition row_pairs :: "bool \<Rightarrow> nat list \<Rightarrow> (nat \<times> nat) list" where
  "row_pairs incl row =
     (if incl then concat (map (\<lambda>b. map (\<lambda>a. (a, b)) (filter (\<lambda>a. a \<le> b) row)) row)
      else concat (map (\<lambda>b. map (\<lambda>a. (a, b)) (filter (\<lambda>a. a < b) row)) row))"

text \<open>The body of \<^verbatim>\<open>for p in pairs\<close>.\<close>

definition count_pair :: "bool \<Rightarrow> nat \<times> nat \<Rightarrow> edge_map \<Rightarrow> edge_map" where
  "count_pair weighted p em =
     (case map_of em p of
        None \<Rightarrow> AList.update p 1 em
      | Some w \<Rightarrow> if weighted then AList.update p (w + 1) em else em)"

text \<open>The body of \<^verbatim>\<open>for row in label_data.rows\<close>.\<close>

definition count_row :: "clusterer \<Rightarrow> nat list \<Rightarrow> edge_map \<Rightarrow> edge_map" where
  "count_row self row em =
     fold (count_pair (truthy (is_weighted self)))
          (row_pairs (truthy (include_self_edges self)) row) em"

text \<open>The body of \<^verbatim>\<open>for i in range(self.label_count)\<close>.\<close>

definition halve_self_edge :: "nat \<Rightarrow> edge_map \<Rightarrow> edge_map" where
  "halve_self_edge i em =
     (case map_of em (i, i) of
        Some w \<Rightarrow> AList.update (i, i) (w / 2) em
      | None \<Rightarrow> em)"

definition generate_coocurence_adjacency_matrix :: "clusterer \<Rightarrow> matrix \<Rightarrow> clusterer \<times> edge_map" where
  "generate_coocurence_adjacency_matrix self y =
     (let label_data = get_matrix_in_format_lil y;
          n = snd (lil_shape label_data);
          em = fold (count_row self) (rows label_data) [];
          em' = (if truthy (normalize_self_edges self)
                 then fold halve_self_edge [0..<n] em else em)
      in (self\<lparr>label_count := Some n, edge_map := Some em'\<rparr>, em'))"

text \<open>What the claims count: the sample rows that contain label \<open>a\<close> and label \<open>b\<close>
  (with \<open>a = b\<close>: the rows that contain label \<open>a\<close>).\<close>

definition has_label :: "int list \<Rightarrow> nat \<Rightarrow> bool" where
  "has_label r a \<longleftrightarrow> a < length r \<and> r ! a \<noteq> 0"

definition cooccurrences :: "matrix \<Rightarrow> nat \<Rightarrow> nat \<Rightarrow> nat" where
  "cooccurrences y a b = length (filter (\<lambda>r. has_label r a \<and> has_label r b) (entries y))"

text \<open>The configured pair policy: \<open>a \<le> b\<close> with self-edges, \<open>a < b\<close> without.\<close>

definition pair_policy :: "clusterer \<Rightarrow> nat \<Rightarrow> nat \<Rightarrow> bool" where
  "pair_policy self a b = (if truthy (include_self_edges self) then a \<le> b else a < b)"

subsection \<open>The graph library, as far as \<^verbatim>\<open>graphtool.py\<close> drives it\<close>

text \<open>\<^verbatim>\<open>graph_tool\<close> is an external library.  Of its \<^verbatim>\<open>Graph\<close> the code uses the
  constructor, \<^verbatim>\<open>add_vertex(n)\<close> and \<^verbatim>\<open>add_edge(s, t)\<close>; vertices are the indices
  below \<open>num_vertices\<close>, an edge is identified by its position in \<open>edges\<close>, and
  \<^verbatim>\<open>add_edge\<close> on an index that is not yet a vertex creates the missing vertices
  (the library's default \<^verbatim>\<open>add_missing=True\<close>).  An edge property map of type
  \<^verbatim>\<open>double\<close> is a function from edge positions to values, \<open>0\<close> where nothing was
  stored.\<close>

record graph =
  directed :: bool
  num_vertices :: nat
  edges :: "(nat \<times> nat) list"

definition Graph :: "bool \<Rightarrow> graph" where
  "Graph d = \<lparr>directed = d, num_vertices = 0, edges = []\<rparr>"

definition add_vertex :: "nat \<Rightarrow> graph \<Rightarrow> graph" where
  "add_vertex n g = g\<lparr>num_vertices := num_vertices g + n\<rparr>"

definition add_edge :: "nat \<Rightarrow> nat \<Rightarrow> graph \<Rightarrow> graph \<times> nat" where
  "add_edge s t g =
     (g\<lparr>num_vertices := max (num_vertices g) (Suc (max s t)), edges := edges g @ [(s, t)]\<rparr>,
      length (edges g))"

definition new_edge_property :: "nat \<Rightarrow> real" where
  "new_edge_property = (\<lambda>e. 0)"

text \<open>What one run of the inference library hands back to \<^verbatim>\<open>predict_communities\<close>:
  the equilibrated block state, the two entropies computed from the collected
  marginals and the negated mean description length.  The state type \<open>'st\<close> and the
  number type \<open>'f\<close> of the library stay abstract.\<close>

record ('st, 'f) inference =
  inf_state :: 'st
  inf_S_mf :: 'f
  inf_S_bethe :: 'f
  inf_L :: 'f

text \<open>The library itself is a parameter: for a graph, the edge covariate (given only
  for a weighted builder), the \<^verbatim>\<open>overlap\<close> flag and the \<^verbatim>\<open>deg_corr\<close> flag it yields
  an inference; \<open>get_blocks\<close> reads \<^verbatim>\<open>state.get_blocks().get_array()\<close>.  The sweep
  counts and pass-through options are fixed per instance and are part of the
  parameter.\<close>

record ('st, 'f) graph_tool =
  run_inference :: "graph \<Rightarrow> (nat \<Rightarrow> real) option \<Rightarrow> bool \<Rightarrow> bool \<Rightarrow> ('st, 'f) inference"
  get_blocks :: "'st \<Rightarrow> int list"

subsection \<open>\<^verbatim>\<open>GraphToolCooccurenceClusterer\<close>\<close>

text \<open>The graph builder handed to the constructor is not among the sources; the code
  uses its \<^verbatim>\<open>transform\<close> method and its \<^verbatim>\<open>is_weighted\<close> attribute.\<close>

record graph_builder =
  transform :: "matrix \<Rightarrow> edge_map"
  builder_is_weighted :: pyval

text \<open>Modelled from the spec: the builder class is missing; the spec's data flow is
  label matrix, AdjacencyBuilder, edge map, GraphAssembler, and the docstring of
  \<^verbatim>\<open>build_graph_instance\<close> names \<^verbatim>\<open>generate_coocurence_adjacency_matrix\<close> as the
  source of the edge map, so the builder's \<^verbatim>\<open>transform\<close> is that method.\<close>

definition cooccurence_graph_builder :: "clusterer \<Rightarrow> graph_builder" where
  "cooccurence_graph_builder c =
     \<lparr>transform = (\<lambda>y. snd (generate_coocurence_adjacency_matrix c y)),
      builder_is_weighted = is_weighted c\<rparr>"

text \<open>The attributes \<^verbatim>\<open>__init__\<close> stores and the model reads.\<close>

record GraphToolCooccurenceClusterer =
  the_graph_builder :: graph_builder
  allow_overlap :: bool
  use_degree_corr :: "bool option"
  model_selection_criterium :: string

text \<open>The body of \<^verbatim>\<open>for edge, weight in edge_map.items()\<close>.\<close>

definition attach_edge ::
  "(nat \<times> nat) \<times> real \<Rightarrow> graph \<times> (nat \<Rightarrow> real) \<Rightarrow> graph \<times> (nat \<Rightarrow> real)" where
  "attach_edge item gw =
     (let (g', e) = add_edge (fst (fst item)) (snd (fst item)) (fst gw)
      in (g', (snd gw)(e := snd item)))"

text \<open>\<^verbatim>\<open>build_graph_instance(self, y)\<close>; \<open>n\<close> is \<^verbatim>\<open>self.label_count\<close>, which
  \<^verbatim>\<open>fit_predict\<close> has set to \<^verbatim>\<open>y.shape[1]\<close>.  The result is the graph with the
  \<^verbatim>\<open>self.weights\<close> property map.\<close>

definition build_graph_instance ::
  "GraphToolCooccurenceClusterer \<Rightarrow> nat \<Rightarrow> matrix \<Rightarrow> graph \<times> (nat \<Rightarrow> real)" where
  "build_graph_instance self n y =
     (let em = transform (the_graph_builder self) y;
          g = add_vertex n (Graph False)
      in fold attach_edge em (g, new_edge_property))"

text \<open>The dictionaries keyed by \<^verbatim>\<open>deg_corr\<close> that \<^verbatim>\<open>predict_communities\<close> fills:
  \<^verbatim>\<open>self.state_\<close>, \<^verbatim>\<open>self.S_bethe_\<close>, \<^verbatim>\<open>self.S_mf_\<close> and \<^verbatim>\<open>self.L_\<close> (an identifier cannot
  end in an underscore here, hence the suffix).\<close>

record ('st, 'f) models =
  state_dict :: "bool \<rightharpoonup> 'st"
  S_bethe_dict :: "bool \<rightharpoonup> 'f"
  S_mf_dict :: "bool \<rightharpoonup> 'f"
  L_dict :: "bool \<rightharpoonup> 'f"

definition predict_communities ::
  "('st, 'f) graph_tool \<Rightarrow> GraphToolCooccurenceClusterer \<Rightarrow> graph \<Rightarrow> (nat \<Rightarrow> real) \<Rightarrow>
     bool \<Rightarrow> ('st, 'f) models \<Rightarrow> ('st, 'f) models" where
  "predict_communities gt self g ws deg_corr m =
     (let r = run_inference gt g
                (if truthy (builder_is_weighted (the_graph_builder self)) then Some ws else None)
                (allow_overlap self) deg_corr
      in m\<lparr>state_dict := (state_dict m)(deg_corr \<mapsto> inf_state r),
            S_bethe_dict := (S_bethe_dict m)(deg_corr \<mapsto> inf_S_bethe r),
            S_mf_dict := (S_mf_dict m)(deg_corr \<mapsto> inf_S_mf r),
            L_dict := (L_dict m)(deg_corr \<mapsto> inf_L r)\<rparr>)"

text \<open>Lines 125 to 139 of \<^verbatim>\<open>fit_predict\<close>: the inference runs and the choice of
  \<^verbatim>\<open>which_model_to_use\<close>.  A dictionary lookup of a missing key raises.\<close>

definition select_model ::
  "('st, 'f::ord) graph_tool \<Rightarrow> GraphToolCooccurenceClusterer \<Rightarrow> graph \<Rightarrow> (nat \<Rightarrow> real) \<Rightarrow>
     error + ('st, 'f) models \<times> bool" where
  "select_model gt self g ws =
     (let m0 = \<lparr>state_dict = Map.empty, S_bethe_dict = Map.empty, S_mf_dict = Map.empty, L_dict = Map.empty\<rparr>
      in case use_degree_corr self of
           None \<Rightarrow>
             (let m = fold (predict_communities gt self g ws) [True, False] m0;
                  decision_criterion =
                    (if model_selection_criterium self = ''bethe'' then S_bethe_dict m else S_mf_dict m)
              in case decision_criterion True of
                   None \<Rightarrow> Inl KeyError
                 | Some t \<Rightarrow>
                     (case decision_criterion False of
                        None \<Rightarrow> Inl KeyError
                      | Some f \<Rightarrow> Inr (m, t < f)))
         | Some deg_corr \<Rightarrow> Inr (predict_communities gt self g ws deg_corr m0, deg_corr))"

text \<open>The body of \<^verbatim>\<open>for label_id, block_id in enumerate(found_blocks)\<close>: the lookup
  \<^verbatim>\<open>self.label_sets[block_id]\<close> raises on a block id that is not a key.\<close>

fun assign_labels ::
  "(nat \<times> int) list \<Rightarrow> (int \<times> nat list) list \<Rightarrow> error + (int \<times> nat list) list" where
  "assign_labels [] ls = Inr ls"
| "assign_labels ((label_id, block_id) # rest) ls =
     (case map_of ls block_id of
        None \<Rightarrow> Inl KeyError
      | Some l \<Rightarrow> assign_labels rest (AList.update block_id (l @ [label_id]) ls))"

text \<open>The source is written for Python 3 (it takes \<^verbatim>\<open>range\<close> and \<^verbatim>\<open>object\<close> from
  \<^verbatim>\<open>builtins\<close> and \<^verbatim>\<open>print\<close> as a function).  There \<^verbatim>\<open>filter(function, iterable)\<close>
  returns a lazy iterator, given by the function and the items it will be tried on;
  \<open>yielded\<close> lists what iterating it would produce.\<close>

datatype 'a filter_object = Filter "'a \<Rightarrow> bool" "'a list"

fun yielded :: "'a filter_object \<Rightarrow> 'a list" where
  "yielded (Filter p xs) = filter p xs"

text \<open>\<^verbatim>\<open>len\<close> of a filter object: the type has no \<^verbatim>\<open>__len__\<close>, and \<^verbatim>\<open>len\<close> raises
  \<^verbatim>\<open>TypeError\<close>.\<close>

fun len_filter :: "'a filter_object \<Rightarrow> error + nat" where
  "len_filter (Filter p xs) = Inl TypeError"

text \<open>\<^verbatim>\<open>np.array\<close> of an object that is not a sequence: a zero-dimensional object
  array holding it.\<close>

datatype 'a ndarray = Object_array 'a

definition np_array :: "'a filter_object \<Rightarrow> 'a filter_object ndarray" where
  "np_array obj = Object_array obj"

text \<open>Lines 145 to 151: the dictionary of label sets by block id, filled, and the
  filter object over its values that replaces it in \<^verbatim>\<open>self.label_sets\<close>.\<close>

definition group_labels :: "int list \<Rightarrow> error + nat list filter_object" where
  "group_labels found_blocks =
     (let label_sets0 = map (\<lambda>b. (int b, [])) [0..<length found_blocks]
      in case assign_labels (enumerate 0 found_blocks) label_sets0 of
           Inl e \<Rightarrow> Inl e
         | Inr ls \<Rightarrow> Inr (Filter (\<lambda>x. length x > 0) (map snd ls)))"

text \<open>What \<^verbatim>\<open>fit_predict\<close> leaves on the instance.\<close>

record ('st, 'f) fitted =
  fit_label_count :: nat
  coocurence_graph :: graph
  weights :: "nat \<Rightarrow> real"
  fit_models :: "('st, 'f) models"
  label_sets :: "nat list filter_object"
  model_count :: nat

text \<open>\<^verbatim>\<open>fit_predict(self, X, y)\<close>: the updated attributes and the returned array, or
  the exception raised on the way.  \<open>X\<close> is not used by the code.\<close>

definition fit_predict ::
  "('st, 'f::ord) graph_tool \<Rightarrow> GraphToolCooccurenceClusterer \<Rightarrow> 'x \<Rightarrow> matrix \<Rightarrow>
     error + ('st, 'f) fitted \<times> nat list filter_object ndarray" where
  "fit_predict gt self X y =
     (let n = snd (shape y);
          (g, ws) = build_graph_instance self n y
      in case select_model gt self g ws of
           Inl e \<Rightarrow> Inl e
         | Inr (m, which_model_to_use) \<Rightarrow>
             (case state_dict m which_model_to_use of
                None \<Rightarrow> Inl KeyError
              | Some state_to_use \<Rightarrow>
                  (case group_labels (get_blocks gt state_to_use) of
                     Inl e \<Rightarrow> Inl e
                   | Inr sets \<Rightarrow>
                       (case len_filter sets of
                          Inl e \<Rightarrow> Inl e
                        | Inr k \<Rightarrow>
                            Inr (\<lparr>fit_label_count = n, coocurence_graph = g, weights = ws,
                                  fit_models = m, label_sets = sets, model_count = k\<rparr>,
                                 np_array sets)))))"

text \<open>The two numbers the verbose line of \<^verbatim>\<open>predict_communities\<close> prints as "Model
  evidence" of a run: \<^verbatim>\<open>L + S_mf\<close> (mean field) and \<^verbatim>\<open>L + S_bethe\<close> (Bethe).\<close>

definition model_evidence :: "('st, 'f::plus) inference \<Rightarrow> 'f \<times> 'f" where
  "model_evidence r = (inf_L r + inf_S_mf r, inf_L r + inf_S_bethe r)"

section \<open>The edge map, key by key\<close>

text \<open>Each loop of \<^verbatim>\<open>generate_coocurence_adjacency_matrix\<close> is characterised by what a
  lookup of a key returns afterwards.\<close>

lemma map_of_count_pair:
  "map_of (count_pair wt p em) q =
     (if q = p then Some (case map_of em p of None \<Rightarrow> 1 | Some w \<Rightarrow> if wt then w + 1 else w)
      else map_of em q)"
  by (auto simp: count_pair_def AList.update_conv' split: option.splits)

lemma map_of_fold_count_pair:
  "distinct ps \<Longrightarrow> map_of (fold (count_pair wt) ps em) q =
     (if q \<in> set ps then Some (case map_of em q of None \<Rightarrow> 1 | Some w \<Rightarrow> if wt then w + 1 else w)
      else map_of em q)"
proof (induction ps arbitrary: em)
  case Nil
  then show ?case by simp
next
  case (Cons p ps)
  then show ?case by (auto simp: map_of_count_pair)
qed

lemma distinct_pairs_aux:
  "distinct xs \<Longrightarrow> distinct ys \<Longrightarrow>
   distinct (concat (map (\<lambda>b. map (\<lambda>a. (a, b)) (filter (P b) xs)) ys))"
  by (induction ys) (auto simp: distinct_map inj_on_def)

lemma distinct_row_pairs: "distinct row \<Longrightarrow> distinct (row_pairs incl row)"
  unfolding row_pairs_def by (simp add: distinct_pairs_aux)

lemma set_row_pairs:
  "(a, b) \<in> set (row_pairs incl row) \<longleftrightarrow>
     a \<in> set row \<and> b \<in> set row \<and> (if incl then a \<le> b else a < b)"
  unfolding row_pairs_def by auto

lemma distinct_nonzero_columns: "distinct (nonzero_columns r)"
  unfolding nonzero_columns_def by simp

lemma set_nonzero_columns: "a \<in> set (nonzero_columns r) \<longleftrightarrow> has_label r a"
  unfolding nonzero_columns_def has_label_def by auto

lemma map_of_count_row:
  "distinct row \<Longrightarrow> map_of (count_row self row em) q =
     (if q \<in> set (row_pairs (truthy (include_self_edges self)) row)
      then Some (case map_of em q of None \<Rightarrow> 1
                 | Some w \<Rightarrow> if truthy (is_weighted self) then w + 1 else w)
      else map_of em q)"
  unfolding count_row_def by (simp add: map_of_fold_count_pair distinct_row_pairs)

lemma map_of_fold_count_row:
  assumes "list_all distinct rws"
    and "k = length (filter (\<lambda>row. q \<in> set (row_pairs (truthy (include_self_edges self)) row)) rws)"
  shows "map_of (fold (count_row self) rws em) q =
     (case map_of em q of
        None \<Rightarrow> if k = 0 then None
                else Some (if truthy (is_weighted self) then real k else 1)
      | Some w \<Rightarrow> Some (if truthy (is_weighted self) then w + real k else w))"
  using assms
proof (induction rws arbitrary: em k)
  case Nil
  then show ?case by (simp split: option.splits)
next
  case (Cons row rws)
  then show ?case
    by (simp add: map_of_count_row split: option.splits)
qed

lemma map_of_halve_self_edge:
  "map_of (halve_self_edge i em) q =
     (if q = (i, i) then map_option (\<lambda>w. w / 2) (map_of em q) else map_of em q)"
  by (cases "map_of em (i, i)") (simp_all add: halve_self_edge_def AList.update_conv')

lemma map_of_fold_halve:
  "map_of (fold halve_self_edge [0..<n] em) (a, b) =
     (if a = b \<and> a < n then map_option (\<lambda>w. w / 2) (map_of em (a, b)) else map_of em (a, b))"
  by (induction n) (auto simp: map_of_halve_self_edge less_Suc_eq)

lemma count_row_pairs:
  "length (filter (\<lambda>row. (a, b) \<in> set (row_pairs (truthy (include_self_edges self)) row))
             (map nonzero_columns (entries y))) =
     (if pair_policy self a b then cooccurrences y a b else 0)"
  by (simp add: filter_map comp_def set_row_pairs set_nonzero_columns pair_policy_def
      cooccurrences_def)

lemma counted_lookup:
  "map_of (fold (count_row self) (map nonzero_columns (entries y)) []) (a, b) =
     (if pair_policy self a b \<and> 0 < cooccurrences y a b
      then Some (if truthy (is_weighted self) then real (cooccurrences y a b) else 1)
      else None)"
proof -
  have d: "list_all distinct (map nonzero_columns (entries y))"
    by (simp add: list_all_iff distinct_nonzero_columns)
  have k: "(if pair_policy self a b then cooccurrences y a b else 0) =
      length (filter (\<lambda>row. (a, b) \<in> set (row_pairs (truthy (include_self_edges self)) row))
             (map nonzero_columns (entries y)))"
    by (rule count_row_pairs [symmetric])
  show ?thesis
    using map_of_fold_count_row [OF d k, of "[]"] by simp
qed

lemma generate_lookup:
  "map_of (snd (generate_coocurence_adjacency_matrix self y)) (a, b) =
     (if pair_policy self a b \<and> 0 < cooccurrences y a b
      then Some ((if truthy (is_weighted self) then real (cooccurrences y a b) else 1) /
                 (if truthy (normalize_self_edges self) \<and> a = b \<and> a < snd (shape y)
                  then 2 else 1))
      else None)"
  by (simp add: generate_coocurence_adjacency_matrix_def get_matrix_in_format_lil_def Let_def
      map_of_fold_halve counted_lookup)

lemma distinct_count_pair:
  "distinct (map fst em) \<Longrightarrow> distinct (map fst (count_pair wt p em))"
  by (simp add: count_pair_def AList.distinct_update split: option.splits)

lemma distinct_fold_count_pair:
  "distinct (map fst em) \<Longrightarrow> distinct (map fst (fold (count_pair wt) ps em))"
  by (induction ps arbitrary: em) (simp_all add: distinct_count_pair)

lemma distinct_fold_count_row:
  "distinct (map fst em) \<Longrightarrow> distinct (map fst (fold (count_row self) rws em))"
  by (induction rws arbitrary: em) (simp_all add: count_row_def distinct_fold_count_pair)

lemma distinct_halve_self_edge:
  "distinct (map fst em) \<Longrightarrow> distinct (map fst (halve_self_edge i em))"
  by (simp add: halve_self_edge_def AList.distinct_update split: option.splits)

lemma distinct_fold_halve:
  "distinct (map fst em) \<Longrightarrow> distinct (map fst (fold halve_self_edge is em))"
  by (induction "is" arbitrary: em) (simp_all add: distinct_halve_self_edge)

lemma generate_distinct_keys:
  "distinct (map fst (snd (generate_coocurence_adjacency_matrix self y)))"
  by (simp add: generate_coocurence_adjacency_matrix_def Let_def distinct_fold_halve
      distinct_fold_count_row)

lemma generate_key_iff:
  "(a, b) \<in> fst ` set (snd (generate_coocurence_adjacency_matrix self y)) \<longleftrightarrow>
     pair_policy self a b \<and> 0 < cooccurrences y a b"
proof -
  have "(a, b) \<in> fst ` set (snd (generate_coocurence_adjacency_matrix self y)) \<longleftrightarrow>
        map_of (snd (generate_coocurence_adjacency_matrix self y)) (a, b) \<noteq> None"
    by (simp add: map_of_eq_None_iff)
  then show ?thesis by (simp add: generate_lookup)
qed

lemma cooccurrences_less:
  assumes "well_shaped y" and "0 < cooccurrences y a b"
  shows "a < snd (shape y) \<and> b < snd (shape y)"
proof -
  from assms(2) obtain r where "r \<in> set (entries y)" "has_label r a" "has_label r b"
    unfolding cooccurrences_def by (auto simp: filter_empty_conv)
  with assms(1) show ?thesis
    by (auto simp: well_shaped_def list_all_iff has_label_def)
qed

lemma py_in_booleans: "py_in v [PyBool True, PyBool False] \<longleftrightarrow> equals_a_boolean v"
  by (cases v) (auto simp: py_in_def)

section \<open>The claims about \<^verbatim>\<open>base.py\<close>\<close>

text \<open>Claim C3, as amended.  \<^verbatim>\<open>__init__\<close> raises \<^verbatim>\<open>ValueError\<close> if and only if one of
  the three flags is not equal (by \<^verbatim>\<open>==\<close>) to \<^verbatim>\<open>True\<close> or \<^verbatim>\<open>False\<close>, or
  \<^verbatim>\<open>normalize_self_edges\<close> is truthy while \<^verbatim>\<open>include_self_edges\<close> is falsy.  The
  membership test \<^verbatim>\<open>not in [True, False]\<close> compares by equality, so \<open>1\<close>, \<open>0\<close>,
  \<open>1.0\<close> and \<open>0.0\<close> pass it as \<^verbatim>\<open>True\<close> and \<^verbatim>\<open>False\<close> do.  The error carries no
  instance: every check precedes the three assignments.  When no \<^verbatim>\<open>ValueError\<close> is
  raised nothing else is: the instance holds the three flags as given.\<close>

theorem init_raises_iff:
  "(raises_ValueError (LabelCooccurenceClustererBase_init w i n) \<longleftrightarrow>
      \<not> (equals_a_boolean w \<and> equals_a_boolean i \<and> equals_a_boolean n)
      \<or> (truthy n \<and> \<not> truthy i))
   \<and> (\<not> raises_ValueError (LabelCooccurenceClustererBase_init w i n) \<longrightarrow>
        LabelCooccurenceClustererBase_init w i n =
          Inr \<lparr>is_weighted = w, include_self_edges = i, normalize_self_edges = n,
               label_count = None, edge_map = None\<rparr>)"
  by (auto simp: LabelCooccurenceClustererBase_init_def py_in_booleans)

text \<open>The theorem at three inputs: a contradictory pair of flags, a flag left at
  \<^verbatim>\<open>None\<close>, and an integer and a float flag that are accepted.\<close>

theorem init_raises_iff_witness:
  "raises_ValueError (LabelCooccurenceClustererBase_init (PyBool True) (PyBool False) (PyBool True))
   \<and> raises_ValueError (LabelCooccurenceClustererBase_init PyNone (PyBool True) (PyBool True))
   \<and> LabelCooccurenceClustererBase_init (PyInt 1) (PyBool True) (PyFloat 0) =
       Inr \<lparr>is_weighted = PyInt 1, include_self_edges = PyBool True,
            normalize_self_edges = PyFloat 0, label_count = None, edge_map = None\<rparr>"
  using init_raises_iff [of "PyBool True" "PyBool False" "PyBool True"]
    init_raises_iff [of PyNone "PyBool True" "PyBool True"]
    init_raises_iff [of "PyInt 1" "PyBool True" "PyFloat 0"]
  by simp

text \<open>The claim as written, "raises if and only if a flag is not strictly a boolean
  or normalisation is asked for without self-edges", fails at \<^verbatim>\<open>weighted=1\<close>:
  the flag is not a boolean and nothing is raised.\<close>

theorem init_counterexample:
  "\<not> (raises_ValueError (LabelCooccurenceClustererBase_init (PyInt 1) (PyBool True) (PyBool False)) \<longleftrightarrow>
        (\<not> strictly_boolean (PyInt 1) \<or> \<not> strictly_boolean (PyBool True)
         \<or> \<not> strictly_boolean (PyBool False)
         \<or> (PyBool False = PyBool True \<and> PyBool True = PyBool False)))"
  by (simp add: LabelCooccurenceClustererBase_init_def py_in_def)

text \<open>Claim C4.  With \<^verbatim>\<open>weighted\<close> and \<^verbatim>\<open>include_self_edges\<close> true, the edge map
  holds for a label \<open>i\<close> under key \<open>(i, i)\<close> the number of sample rows that contain
  label \<open>i\<close>, and half that number under \<^verbatim>\<open>normalize_self_edges\<close>.  A label that
  occurs in no row has no key \<open>(i, i)\<close> at all.\<close>

theorem self_edge_weight:
  assumes "truthy (is_weighted self)" and "truthy (include_self_edges self)"
    and "i < snd (shape y)"
  shows "map_of (snd (generate_coocurence_adjacency_matrix self y)) (i, i) =
     (if cooccurrences y i i = 0 then None
      else Some (if truthy (normalize_self_edges self)
                 then real (cooccurrences y i i) / 2 else real (cooccurrences y i i)))"
  using assms by (simp add: generate_lookup pair_policy_def)

text \<open>Label \<open>2\<close> occurs in two of three rows; normalised, its self-edge weighs \<open>1\<close>.\<close>

theorem self_edge_weight_witness:
  "truthy (is_weighted \<lparr>is_weighted = PyBool True, include_self_edges = PyBool True,
         normalize_self_edges = PyBool True, label_count = None, edge_map = None\<rparr>)
   \<and> truthy (include_self_edges \<lparr>is_weighted = PyBool True, include_self_edges = PyBool True,
         normalize_self_edges = PyBool True, label_count = None, edge_map = None\<rparr>)
   \<and> (2 :: nat) < snd (shape \<lparr>shape = (3, 3), entries = [[1, 0, 1], [0, 1, 1], [1, 1, 0]]\<rparr>)
   \<and> map_of (snd (generate_coocurence_adjacency_matrix
        \<lparr>is_weighted = PyBool True, include_self_edges = PyBool True,
         normalize_self_edges = PyBool True, label_count = None, edge_map = None\<rparr>
        \<lparr>shape = (3, 3), entries = [[1, 0, 1], [0, 1, 1], [1, 1, 0]]\<rparr>)) (2, 2) = Some 1"
proof -
  let ?c = "\<lparr>is_weighted = PyBool True, include_self_edges = PyBool True,
         normalize_self_edges = PyBool True, label_count = None, edge_map = None\<rparr>"
  let ?y = "\<lparr>shape = (3, 3), entries = [[1, 0, 1], [0, 1, 1], [1, 1, 0]]\<rparr>"
  have h1: "truthy (is_weighted ?c)" by simp
  have h2: "truthy (include_self_edges ?c)" by simp
  have h3: "(2 :: nat) < snd (shape ?y)" by simp
  have c: "cooccurrences ?y 2 2 = 2" by (simp add: cooccurrences_def has_label_def)
  from self_edge_weight [OF h1 h2 h3] h1 h2 h3 c show ?thesis by simp
qed

text \<open>Claim C5, as amended.  With \<^verbatim>\<open>weighted=False\<close> every stored weight is \<open>1.0\<close>,
  except that under \<^verbatim>\<open>normalize_self_edges\<close> every self-edge \<open>(i, i)\<close> weighs
  \<open>0.5\<close>: the final loop halves it whatever \<^verbatim>\<open>weighted\<close> is.\<close>

theorem unweighted_weights:
  assumes "\<not> truthy (is_weighted self)" and "well_shaped y"
    and "((a, b), w) \<in> set (snd (generate_coocurence_adjacency_matrix self y))"
  shows "w = (if truthy (normalize_self_edges self) \<and> a = b then 1 / 2 else 1)"
proof -
  from assms(3) have look: "map_of (snd (generate_coocurence_adjacency_matrix self y)) (a, b) = Some w"
    by (simp add: generate_distinct_keys)
  then have pos: "0 < cooccurrences y a b"
    by (simp add: generate_lookup split: if_splits)
  with assms(2) have "a < snd (shape y)"
    by (simp add: cooccurrences_less)
  with look assms(1) show ?thesis
    by (auto simp: generate_lookup split: if_splits)
qed

theorem unweighted_weights_witness:
  "\<not> truthy (is_weighted \<lparr>is_weighted = PyBool False, include_self_edges = PyBool True,
         normalize_self_edges = PyBool False, label_count = None, edge_map = None\<rparr>)
   \<and> well_shaped \<lparr>shape = (2, 2), entries = [[1, 1], [1, 1]]\<rparr>
   \<and> ((0, 1), 1) \<in> set (snd (generate_coocurence_adjacency_matrix
        \<lparr>is_weighted = PyBool False, include_self_edges = PyBool True,
         normalize_self_edges = PyBool False, label_count = None, edge_map = None\<rparr>
        \<lparr>shape = (2, 2), entries = [[1, 1], [1, 1]]\<rparr>))"
proof -
  let ?c = "\<lparr>is_weighted = PyBool False, include_self_edges = PyBool True,
         normalize_self_edges = PyBool False, label_count = None, edge_map = None\<rparr>"
  let ?y = "\<lparr>shape = (2, 2), entries = [[1, 1], [1, 1]]\<rparr>"
  have em: "snd (generate_coocurence_adjacency_matrix ?c ?y) = [((0, 0), 1), ((0, 1), 1), ((1, 1), 1)]"
    by code_simp
  have h1: "\<not> truthy (is_weighted ?c)" by simp
  have h2: "well_shaped ?y" by (simp add: well_shaped_def)
  have h3: "((0, 1), 1) \<in> set (snd (generate_coocurence_adjacency_matrix ?c ?y))"
    unfolding em by simp
  from unweighted_weights [OF h1 h2 h3] h1 h2 h3 show ?thesis by simp
qed

text \<open>The claim as written fails for an unweighted, normalised builder: the single
  label of a one-by-one matrix gets the weight \<open>0.5\<close>.  The configuration is one the
  constructor accepts.\<close>

theorem unweighted_counterexample:
  "LabelCooccurenceClustererBase_init (PyBool False) (PyBool True) (PyBool True) =
     Inr \<lparr>is_weighted = PyBool False, include_self_edges = PyBool True,
          normalize_self_edges = PyBool True, label_count = None, edge_map = None\<rparr>
   \<and> snd (generate_coocurence_adjacency_matrix
        \<lparr>is_weighted = PyBool False, include_self_edges = PyBool True,
         normalize_self_edges = PyBool True, label_count = None, edge_map = None\<rparr>
        \<lparr>shape = (1, 1), entries = [[1]]\<rparr>) = [((0, 0), 1 / 2)]
   \<and> (1 / 2 :: real) \<noteq> 1"
  by (simp add: LabelCooccurenceClustererBase_init_def py_in_def
      generate_coocurence_adjacency_matrix_def get_matrix_in_format_lil_def
      nonzero_columns_def count_row_def row_pairs_def count_pair_def halve_self_edge_def Let_def)

text \<open>Claim C6, as amended.  For the rows \<open>[1,0,1]\<close>, \<open>[0,1,1]\<close>, \<open>[1,1,0]\<close>, weighted
  and without self-edges, the edge map is \<open>{(0,2): 1.0, (1,2): 1.0, (0,1): 1.0}\<close> in
  insertion order, which as a dictionary is \<open>{(0,1): 1.0, (0,2): 1.0, (1,2): 1.0}\<close>:
  every pair of labels shares exactly one row.\<close>

theorem example_edge_map:
  "snd (generate_coocurence_adjacency_matrix
        \<lparr>is_weighted = PyBool True, include_self_edges = PyBool False,
         normalize_self_edges = PyBool False, label_count = None, edge_map = None\<rparr>
        \<lparr>shape = (3, 3), entries = [[1, 0, 1], [0, 1, 1], [1, 1, 0]]\<rparr>)
     = [((0, 2), 1), ((1, 2), 1), ((0, 1), 1)]
   \<and> map_of [((0, 2), 1), ((1, 2), 1), ((0, 1), 1 :: real)]
     = map_of [((0 :: nat, 1 :: nat), 1), ((0, 2), 1), ((1, 2), 1)]"
proof
  show "snd (generate_coocurence_adjacency_matrix
        \<lparr>is_weighted = PyBool True, include_self_edges = PyBool False,
         normalize_self_edges = PyBool False, label_count = None, edge_map = None\<rparr>
        \<lparr>shape = (3, 3), entries = [[1, 0, 1], [0, 1, 1], [1, 1, 0]]\<rparr>)
     = [((0, 2), 1), ((1, 2), 1), ((0, 1), 1)]"
    by code_simp
  show "map_of [((0, 2), 1), ((1, 2), 1), ((0, 1), 1 :: real)]
     = map_of [((0 :: nat, 1 :: nat), 1), ((0, 2), 1), ((1, 2), 1)]"
    by (auto simp: fun_eq_iff)
qed

text \<open>The example as the spec gives it has weight \<open>2\<close> for the pair \<open>(1, 2)\<close>; labels
  \<open>1\<close> and \<open>2\<close> meet in the second row only.\<close>

theorem example_counterexample:
  "map_of (snd (generate_coocurence_adjacency_matrix
        \<lparr>is_weighted = PyBool True, include_self_edges = PyBool False,
         normalize_self_edges = PyBool False, label_count = None, edge_map = None\<rparr>
        \<lparr>shape = (3, 3), entries = [[1, 0, 1], [0, 1, 1], [1, 1, 0]]\<rparr>))
   \<noteq> map_of [((0, 1), 1), ((0, 2), 1), ((1, 2), 2)]"
proof -
  have "snd (generate_coocurence_adjacency_matrix
        \<lparr>is_weighted = PyBool True, include_self_edges = PyBool False,
         normalize_self_edges = PyBool False, label_count = None, edge_map = None\<rparr>
        \<lparr>shape = (3, 3), entries = [[1, 0, 1], [0, 1, 1], [1, 1, 0]]\<rparr>)
      = [((0, 2), 1), ((1, 2), 1), ((0, 1), 1)]"
    by code_simp
  then show ?thesis
    by (simp add: fun_eq_iff) (rule exI [of _ 1], rule exI [of _ 2], simp)
qed

text \<open>Claim C7.  Every key \<open>(a, b)\<close> of the edge map respects the pair policy:
  \<open>a \<le> b\<close> when \<^verbatim>\<open>include_self_edges\<close> is true, \<open>a < b\<close> (hence no self-edge key)
  when it is false.  This holds for every configuration, valid or not, and every
  matrix.\<close>

theorem key_policy:
  assumes "(a, b) \<in> fst ` set (snd (generate_coocurence_adjacency_matrix self y))"
  shows "if truthy (include_self_edges self) then a \<le> b else a < b"
  using assms by (simp add: generate_key_iff pair_policy_def)

theorem key_policy_witness:
  "(1, 2) \<in> fst ` set (snd (generate_coocurence_adjacency_matrix
        \<lparr>is_weighted = PyBool True, include_self_edges = PyBool False,
         normalize_self_edges = PyBool False, label_count = None, edge_map = None\<rparr>
        \<lparr>shape = (3, 3), entries = [[1, 0, 1], [0, 1, 1], [1, 1, 0]]\<rparr>))
   \<and> (1 :: nat) < 2"
proof -
  let ?c = "\<lparr>is_weighted = PyBool True, include_self_edges = PyBool False,
         normalize_self_edges = PyBool False, label_count = None, edge_map = None\<rparr>"
  let ?y = "\<lparr>shape = (3, 3), entries = [[1, 0, 1], [0, 1, 1], [1, 1, 0]]\<rparr>"
  have em: "snd (generate_coocurence_adjacency_matrix ?c ?y) = [((0, 2), 1), ((1, 2), 1), ((0, 1), 1)]"
    by code_simp
  have h: "(1, 2) \<in> fst ` set (snd (generate_coocurence_adjacency_matrix ?c ?y))"
    unfolding em by simp
  from key_policy [OF h] h show ?thesis by simp
qed

text \<open>Claim C10.  A pair \<open>(a, b)\<close> is a key of the edge map if and only if it
  satisfies the pair policy and some sample row contains both labels; every weight
  stored under a key is strictly positive.\<close>

theorem keys_iff_cooccur:
  "((a, b) \<in> fst ` set (snd (generate_coocurence_adjacency_matrix self y)) \<longleftrightarrow>
      (if truthy (include_self_edges self) then a \<le> b else a < b) \<and> 0 < cooccurrences y a b)
   \<and> (\<forall>w. ((a, b), w) \<in> set (snd (generate_coocurence_adjacency_matrix self y)) \<longrightarrow> 0 < w)"
proof -
  have "0 < w" if "((a, b), w) \<in> set (snd (generate_coocurence_adjacency_matrix self y))" for w
  proof -
    from that have "map_of (snd (generate_coocurence_adjacency_matrix self y)) (a, b) = Some w"
      by (simp add: generate_distinct_keys)
    then show ?thesis
      by (auto simp: generate_lookup split: if_splits)
  qed
  then show ?thesis
    by (simp add: generate_key_iff pair_policy_def)
qed

text \<open>Labels \<open>0\<close> and \<open>2\<close> share the first row and form a key; labels \<open>0\<close> and \<open>1\<close>
  share no row and form none.\<close>

theorem keys_iff_cooccur_witness:
  "(0, 2) \<in> fst ` set (snd (generate_coocurence_adjacency_matrix
        \<lparr>is_weighted = PyBool True, include_self_edges = PyBool True,
         normalize_self_edges = PyBool True, label_count = None, edge_map = None\<rparr>
        \<lparr>shape = (2, 3), entries = [[1, 0, 1], [0, 1, 0]]\<rparr>))
   \<and> (0, 1) \<notin> fst ` set (snd (generate_coocurence_adjacency_matrix
        \<lparr>is_weighted = PyBool True, include_self_edges = PyBool True,
         normalize_self_edges = PyBool True, label_count = None, edge_map = None\<rparr>
        \<lparr>shape = (2, 3), entries = [[1, 0, 1], [0, 1, 0]]\<rparr>))"
proof -
  let ?c = "\<lparr>is_weighted = PyBool True, include_self_edges = PyBool True,
         normalize_self_edges = PyBool True, label_count = None, edge_map = None\<rparr>"
  let ?y = "\<lparr>shape = (2, 3), entries = [[1, 0, 1], [0, 1, 0]]\<rparr>"
  have c02: "cooccurrences ?y 0 2 = 1" by (simp add: cooccurrences_def has_label_def)
  have c01: "cooccurrences ?y 0 1 = 0" by (simp add: cooccurrences_def has_label_def)
  from keys_iff_cooccur [of 0 2 ?c ?y] keys_iff_cooccur [of 0 1 ?c ?y] c02 c01
  show ?thesis by simp
qed

section \<open>Assembling the graph\<close>

text \<open>The loop of \<^verbatim>\<open>build_graph_instance\<close> appends one edge per item and stores its
  weight under the new edge; it adds a vertex only when an endpoint is out of range.\<close>

lemma attach_edge_simps:
  "edges (fst (attach_edge item gw)) = edges (fst gw) @ [fst item]"
  "directed (fst (attach_edge item gw)) = directed (fst gw)"
  "num_vertices (fst (attach_edge item gw)) =
     max (num_vertices (fst gw)) (Suc (max (fst (fst item)) (snd (fst item))))"
  "snd (attach_edge item gw) = (snd gw)(length (edges (fst gw)) := snd item)"
  by (simp_all add: attach_edge_def add_edge_def)

lemma fold_attach_edge_edges:
  "edges (fst (fold attach_edge em gw)) = edges (fst gw) @ map fst em"
  by (induction em arbitrary: gw) (simp_all add: attach_edge_simps)

lemma fold_attach_edge_directed:
  "directed (fst (fold attach_edge em gw)) = directed (fst gw)"
  by (induction em arbitrary: gw) (simp_all add: attach_edge_simps)

lemma fold_attach_edge_vertices:
  "\<forall>k \<in> fst ` set em. fst k < num_vertices (fst gw) \<and> snd k < num_vertices (fst gw) \<Longrightarrow>
   num_vertices (fst (fold attach_edge em gw)) = num_vertices (fst gw)"
proof (induction em arbitrary: gw)
  case Nil
  then show ?case by simp
next
  case (Cons item em)
  have keep: "num_vertices (fst (attach_edge item gw)) = num_vertices (fst gw)"
    using Cons.prems by (auto simp: attach_edge_simps max_def)
  with Cons.prems have "\<forall>k \<in> fst ` set em. fst k < num_vertices (fst (attach_edge item gw))
      \<and> snd k < num_vertices (fst (attach_edge item gw))"
    by simp
  from Cons.IH [OF this] keep show ?case by simp
qed

lemma fold_attach_edge_old_weights:
  "e < length (edges (fst gw)) \<Longrightarrow> snd (fold attach_edge em gw) e = snd gw e"
  by (induction em arbitrary: gw) (simp_all add: attach_edge_simps)

lemma fold_attach_edge_weights:
  "k < length em \<Longrightarrow>
   snd (fold attach_edge em gw) (length (edges (fst gw)) + k) = snd (em ! k)"
proof (induction em arbitrary: gw k)
  case Nil
  then show ?case by simp
next
  case (Cons item em)
  show ?case
  proof (cases k)
    case 0
    then show ?thesis
      by (simp add: fold_attach_edge_old_weights attach_edge_simps)
  next
    case (Suc j)
    with Cons.prems have "j < length em" by simp
    from Cons.IH [OF this, of "attach_edge item gw"] Suc show ?thesis
      by (simp add: attach_edge_simps)
  qed
qed

lemma build_graph_instance_items:
  assumes "build_graph_instance self n y = (g, ws)"
  shows "map (\<lambda>e. (edges g ! e, ws e)) [0..<length (edges g)] = transform (the_graph_builder self) y"
proof -
  let ?em = "transform (the_graph_builder self) y"
  let ?g0 = "add_vertex n (Graph False)"
  from assms have g: "g = fst (fold attach_edge ?em (?g0, new_edge_property))"
    and ws: "ws = snd (fold attach_edge ?em (?g0, new_edge_property))"
    by (simp_all add: build_graph_instance_def Let_def)
  have e: "edges g = map fst ?em"
    by (simp add: g fold_attach_edge_edges add_vertex_def Graph_def)
  have w: "ws k = snd (?em ! k)" if "k < length ?em" for k
    using fold_attach_edge_weights [OF that, of "(?g0, new_edge_property)"]
    by (simp add: ws add_vertex_def Graph_def)
  show ?thesis
    by (rule nth_equalityI) (simp_all add: e w)
qed

lemma build_graph_instance_vertices:
  assumes "build_graph_instance self n y = (g, ws)"
    and "\<forall>k \<in> fst ` set (transform (the_graph_builder self) y). fst k < n \<and> snd k < n"
  shows "num_vertices g = n" and "directed g = False"
    and "edges g = map fst (transform (the_graph_builder self) y)"
proof -
  let ?em = "transform (the_graph_builder self) y"
  let ?g0 = "add_vertex n (Graph False)"
  from assms(1) have g: "g = fst (fold attach_edge ?em (?g0, new_edge_property))"
    by (simp add: build_graph_instance_def Let_def)
  have n0: "num_vertices (fst (?g0, new_edge_property)) = n"
    by (simp add: add_vertex_def Graph_def)
  from assms(2) have "\<forall>k \<in> fst ` set ?em.
      fst k < num_vertices (fst (?g0, new_edge_property))
      \<and> snd k < num_vertices (fst (?g0, new_edge_property))"
    unfolding n0 .
  from fold_attach_edge_vertices [OF this] n0 show "num_vertices g = n"
    by (simp add: g)
  show "directed g = False"
    by (simp add: g fold_attach_edge_directed add_vertex_def Graph_def)
  show "edges g = map fst ?em"
    by (simp add: g fold_attach_edge_edges add_vertex_def Graph_def)
qed

lemma generate_keys_in_range:
  assumes "well_shaped y"
    and "(a, b) \<in> fst ` set (snd (generate_coocurence_adjacency_matrix self y))"
  shows "a \<le> b \<and> b < snd (shape y)"
proof -
  from assms(2) have "pair_policy self a b" and "0 < cooccurrences y a b"
    by (simp_all add: generate_key_iff)
  with assms(1) show ?thesis
    using cooccurrences_less [of y a b] by (auto simp: pair_policy_def split: if_splits)
qed

section \<open>The claims about the graph\<close>

text \<open>Claim C8.  Called by \<^verbatim>\<open>fit_predict\<close> (which has set \<^verbatim>\<open>self.label_count\<close> to the
  number of columns) with the co-occurrence builder, \<^verbatim>\<open>build_graph_instance\<close> yields an
  undirected graph with exactly \<open>label_count\<close> vertices whose edges, each paired with
  its weight property, are exactly the items of the edge map, one edge per key.  The
  function has no error result of its own: it is total on what the builder returns.\<close>

theorem build_graph_instance_graph:
  assumes "well_shaped y"
    and "the_graph_builder self = cooccurence_graph_builder c"
    and "build_graph_instance self (snd (shape y)) y = (g, ws)"
  shows "directed g = False \<and> num_vertices g = snd (shape y)
    \<and> length (edges g) = length (snd (generate_coocurence_adjacency_matrix c y))
    \<and> map (\<lambda>e. (edges g ! e, ws e)) [0..<length (edges g)] =
        snd (generate_coocurence_adjacency_matrix c y)
    \<and> distinct (map fst (snd (generate_coocurence_adjacency_matrix c y)))"
proof -
  let ?em = "snd (generate_coocurence_adjacency_matrix c y)"
  have t: "transform (the_graph_builder self) y = ?em"
    by (simp add: assms(2) cooccurence_graph_builder_def)
  have "\<forall>k \<in> fst ` set ?em. fst k < snd (shape y) \<and> snd k < snd (shape y)"
    using generate_keys_in_range [OF assms(1)] by fastforce
  then have r: "\<forall>k \<in> fst ` set (transform (the_graph_builder self) y).
      fst k < snd (shape y) \<and> snd k < snd (shape y)"
    unfolding t .
  note v = build_graph_instance_vertices [OF assms(3) r]
  from build_graph_instance_items [OF assms(3)] v show ?thesis
    by (simp add: t generate_distinct_keys)
qed

text \<open>The three-label example: three vertices, three edges, each with weight \<open>1\<close>.\<close>

theorem build_graph_instance_graph_witness:
  "well_shaped \<lparr>shape = (3, 3), entries = [[1, 0, 1], [0, 1, 1], [1, 1, 0]]\<rparr>
   \<and> build_graph_instance
       \<lparr>the_graph_builder = cooccurence_graph_builder
          \<lparr>is_weighted = PyBool True, include_self_edges = PyBool False,
           normalize_self_edges = PyBool False, label_count = None, edge_map = None\<rparr>,
        allow_overlap = False, use_degree_corr = None, model_selection_criterium = ''mean_field''\<rparr>
       3 \<lparr>shape = (3, 3), entries = [[1, 0, 1], [0, 1, 1], [1, 1, 0]]\<rparr>
     = (\<lparr>directed = False, num_vertices = 3, edges = [(0, 2), (1, 2), (0, 1)]\<rparr>,
        new_edge_property(0 := 1, 1 := 1, 2 := 1))
   \<and> map (\<lambda>e. (edges \<lparr>directed = False, num_vertices = 3, edges = [(0, 2), (1, 2), (0, 1)]\<rparr> ! e,
                (new_edge_property(0 := 1, 1 := 1, 2 := 1)) e))
         [0..<length (edges \<lparr>directed = False, num_vertices = 3, edges = [(0, 2), (1, 2), (0, 1)]\<rparr>)]
       = [((0, 2), 1), ((1, 2), 1), ((0, 1), 1)]"
proof -
  let ?c = "\<lparr>is_weighted = PyBool True, include_self_edges = PyBool False,
           normalize_self_edges = PyBool False, label_count = None, edge_map = None\<rparr>"
  let ?y = "\<lparr>shape = (3, 3), entries = [[1, 0, 1], [0, 1, 1], [1, 1, 0]]\<rparr>"
  let ?self = "\<lparr>the_graph_builder = cooccurence_graph_builder ?c,
        allow_overlap = False, use_degree_corr = None, model_selection_criterium = ''mean_field''\<rparr>"
  let ?g = "\<lparr>directed = False, num_vertices = 3, edges = [(0, 2), (1, 2), (0, 1)]\<rparr>"
  let ?ws = "new_edge_property(0 := 1, 1 := 1, 2 := 1)"
  have em: "snd (generate_coocurence_adjacency_matrix ?c ?y) = [((0, 2), 1), ((1, 2), 1), ((0, 1), 1)]"
    by code_simp
  have h1: "well_shaped ?y" by (simp add: well_shaped_def)
  have h2: "the_graph_builder ?self = cooccurence_graph_builder ?c" by simp
  have t: "transform (the_graph_builder ?self) ?y = [((0, 2), 1), ((1, 2), 1), ((0, 1), 1)]"
    by (simp add: cooccurence_graph_builder_def em)
  have h3: "build_graph_instance ?self (snd (shape ?y)) ?y = (?g, ?ws)"
    unfolding build_graph_instance_def t Let_def
    by (simp add: attach_edge_def add_edge_def add_vertex_def Graph_def numeral_2_eq_2)
  then have h3': "build_graph_instance ?self 3 ?y = (?g, ?ws)" by simp
  from build_graph_instance_graph [OF h1 h2 h3]
  have "map (\<lambda>e. (edges ?g ! e, ?ws e)) [0..<length (edges ?g)] =
      snd (generate_coocurence_adjacency_matrix ?c ?y)"
    by (elim conjE)
  then have c: "map (\<lambda>e. (edges ?g ! e, ?ws e)) [0..<length (edges ?g)] =
      [((0, 2), 1), ((1, 2), 1), ((0, 1), 1)]"
    unfolding em .
  from h1 h3' c show ?thesis by (intro conjI)
qed

text \<open>Claim C9.  For a label matrix of shape \<open>(n_samples, label_count)\<close>, every key
  \<open>(a, b)\<close> of the edge map satisfies \<open>0 \<le> a \<le> b < label_count\<close> (the indices are
  naturals); hence every edge that \<^verbatim>\<open>build_graph_instance\<close> adds has both endpoints
  among the \<open>label_count\<close> vertices created up front, and after any number of added
  edges the graph still has exactly \<open>label_count\<close> vertices: none is created
  implicitly.\<close>

theorem edge_endpoints_in_range:
  assumes "well_shaped y"
    and "the_graph_builder self = cooccurence_graph_builder c"
    and "build_graph_instance self (snd (shape y)) y = (g, ws)"
  shows "(\<forall>k \<in> fst ` set (snd (generate_coocurence_adjacency_matrix c y)).
            fst k \<le> snd k \<and> snd k < snd (shape y))
    \<and> (\<forall>e \<in> set (edges g). fst e < snd (shape y) \<and> snd e < snd (shape y))
    \<and> (\<forall>j. num_vertices (fst (fold attach_edge
              (take j (snd (generate_coocurence_adjacency_matrix c y)))
              (add_vertex (snd (shape y)) (Graph False), new_edge_property))) = snd (shape y))
    \<and> num_vertices g = snd (shape y)"
proof -
  let ?em = "snd (generate_coocurence_adjacency_matrix c y)"
  let ?n = "snd (shape y)"
  have t: "transform (the_graph_builder self) y = ?em"
    by (simp add: assms(2) cooccurence_graph_builder_def)
  have keys: "\<forall>k \<in> fst ` set ?em. fst k \<le> snd k \<and> snd k < ?n"
    using generate_keys_in_range [OF assms(1)] by fastforce
  then have r: "\<forall>k \<in> fst ` set ?em. fst k < ?n \<and> snd k < ?n"
    by auto
  then have r': "\<forall>k \<in> fst ` set (transform (the_graph_builder self) y). fst k < ?n \<and> snd k < ?n"
    unfolding t .
  note v = build_graph_instance_vertices [OF assms(3) r']
  have ends: "\<forall>e \<in> set (edges g). fst e < ?n \<and> snd e < ?n"
    using r by (simp add: v(3) t)
  have steps: "num_vertices (fst (fold attach_edge (take j ?em)
      (add_vertex ?n (Graph False), new_edge_property))) = ?n" for j
  proof -
    from r have "\<forall>k \<in> fst ` set (take j ?em).
        fst k < num_vertices (fst (add_vertex ?n (Graph False), new_edge_property))
        \<and> snd k < num_vertices (fst (add_vertex ?n (Graph False), new_edge_property))"
      by (auto simp: add_vertex_def Graph_def dest!: in_set_takeD)
    from fold_attach_edge_vertices [OF this] show ?thesis
      by (simp add: add_vertex_def Graph_def)
  qed
  from keys ends steps v(1) show ?thesis by blast
qed

text \<open>Two labels with normalised self-edges: the graph keeps its two vertices.\<close>

theorem edge_endpoints_in_range_witness:
  "well_shaped \<lparr>shape = (2, 2), entries = [[1, 1], [0, 1]]\<rparr>
   \<and> build_graph_instance
       \<lparr>the_graph_builder = cooccurence_graph_builder
          \<lparr>is_weighted = PyBool True, include_self_edges = PyBool True,
           normalize_self_edges = PyBool True, label_count = None, edge_map = None\<rparr>,
        allow_overlap = False, use_degree_corr = None, model_selection_criterium = ''bethe''\<rparr>
       2 \<lparr>shape = (2, 2), entries = [[1, 1], [0, 1]]\<rparr>
     = (\<lparr>directed = False, num_vertices = 2, edges = [(0, 0), (0, 1), (1, 1)]\<rparr>,
        new_edge_property(0 := 1 / 2, 1 := 1, 2 := 1))
   \<and> num_vertices \<lparr>directed = False, num_vertices = 2, edges = [(0, 0), (0, 1), (1, 1)]\<rparr>
       = snd (shape \<lparr>shape = (2, 2), entries = [[1, 1], [0, 1]]\<rparr>)"
proof -
  let ?c = "\<lparr>is_weighted = PyBool True, include_self_edges = PyBool True,
           normalize_self_edges = PyBool True, label_count = None, edge_map = None\<rparr>"
  let ?y = "\<lparr>shape = (2, 2), entries = [[1, 1], [0, 1]]\<rparr>"
  let ?self = "\<lparr>the_graph_builder = cooccurence_graph_builder ?c,
        allow_overlap = False, use_degree_corr = None, model_selection_criterium = ''bethe''\<rparr>"
  let ?g = "\<lparr>directed = False, num_vertices = 2, edges = [(0, 0), (0, 1), (1, 1)]\<rparr>"
  let ?ws = "new_edge_property(0 := 1 / 2, 1 := 1, 2 := 1)"
  have em: "snd (generate_coocurence_adjacency_matrix ?c ?y) =
      [((0, 0), 1 / 2), ((0, 1), 1), ((1, 1), 1)]"
    by code_simp
  have h1: "well_shaped ?y" by (simp add: well_shaped_def)
  have h2: "the_graph_builder ?self = cooccurence_graph_builder ?c" by simp
  have t: "transform (the_graph_builder ?self) ?y = [((0, 0), 1 / 2), ((0, 1), 1), ((1, 1), 1)]"
    by (simp add: cooccurence_graph_builder_def em)
  have h3: "build_graph_instance ?self (snd (shape ?y)) ?y = (?g, ?ws)"
    unfolding build_graph_instance_def t Let_def
    by (simp add: attach_edge_def add_edge_def add_vertex_def Graph_def numeral_2_eq_2)
  then have h3': "build_graph_instance ?self 2 ?y = (?g, ?ws)" by simp
  from edge_endpoints_in_range [OF h1 h2 h3]
  have c: "num_vertices ?g = snd (shape ?y)"
    by (elim conjE)
  from h1 h3' c show ?thesis by (intro conjI)
qed

section \<open>Grouping the labels by block\<close>

text \<open>When every block id is a key of the dictionary, the loop over
  \<^verbatim>\<open>enumerate(found_blocks)\<close> raises nothing and leaves under each block id the labels
  assigned to it, in ascending order; the filter object over the values would yield
  non-empty label sets that partition the label indices.\<close>

lemma update_existing_key:
  "distinct (map fst ls) \<Longrightarrow> map_of ls b = Some l \<Longrightarrow>
   AList.update b v ls = map (\<lambda>(b', l'). (b', if b' = b then v else l')) ls"
proof (induction ls)
  case Nil
  then show ?case by simp
next
  case (Cons p ls)
  obtain b' l' where p: "p = (b', l')" by (cases p)
  show ?case
  proof (cases "b' = b")
    case True
    with Cons.prems p have "b \<notin> fst ` set ls" by auto
    then have "map (\<lambda>(b', l'). (b', if b' = b then v else l')) ls = ls"
      by (induction ls) auto
    with True p show ?thesis by simp
  next
    case False
    with Cons p show ?thesis by simp
  qed
qed

lemma assign_labels_result:
  "distinct (map fst ls) \<Longrightarrow> snd ` set ps \<subseteq> fst ` set ls \<Longrightarrow>
   assign_labels ps ls =
     Inr (map (\<lambda>(b, l). (b, l @ map fst (filter (\<lambda>p. snd p = b) ps))) ls)"
proof (induction ps arbitrary: ls)
  case Nil
  then show ?case by simp
next
  case (Cons p ps)
  obtain i x where p: "p = (i, x)" by (cases p)
  with Cons.prems obtain l where l: "map_of ls x = Some l"
    by (cases "map_of ls x") (auto simp: map_of_eq_None_iff)
  let ?ls = "AList.update x (l @ [i]) ls"
  have upd: "?ls = map (\<lambda>(b', l'). (b', if b' = x then l @ [i] else l')) ls"
    by (rule update_existing_key [OF Cons.prems(1) l])
  have keys: "map fst ?ls = map fst ls"
    by (simp add: upd comp_def case_prod_unfold)
  have old: "(b, l') \<in> set ls \<Longrightarrow> b = x \<Longrightarrow> l' = l" for b l'
    using Cons.prems(1) l by simp
  from Cons.prems keys have d: "distinct (map fst ?ls)" and s: "snd ` set ps \<subseteq> fst ` set ?ls"
    by (simp_all flip: set_map)
  have "assign_labels (p # ps) ls = assign_labels ps ?ls"
    by (simp add: p l)
  also have "\<dots> = Inr (map (\<lambda>(b, l). (b, l @ map fst (filter (\<lambda>p. snd p = b) ps))) ?ls)"
    by (rule Cons.IH [OF d s])
  also have "map (\<lambda>(b, l). (b, l @ map fst (filter (\<lambda>p. snd p = b) ps))) ?ls =
      map (\<lambda>(b, l). (b, l @ map fst (filter (\<lambda>p. snd p = b) (p # ps)))) ls"
    unfolding upd using old by (auto simp: p)
  finally show ?case .
qed

lemma concat_nonempty: "concat (filter (\<lambda>x. length x > 0) xs) = concat xs"
  by (induction xs) auto

lemma distinct_by_block:
  assumes "distinct (map fst ps)" and "distinct ks"
  shows "distinct (concat (map (\<lambda>b. map fst (filter (\<lambda>p. snd p = b) ps)) ks))"
  using assms(2)
proof (induction ks)
  case Nil
  then show ?case by simp
next
  case (Cons k ks)
  have inj: "inj_on fst (set ps)"
    using assms(1) by (simp add: distinct_map)
  have d1: "distinct (map fst (filter (\<lambda>p. snd p = k) ps))"
    using assms(1) by (rule distinct_map_filter)
  have disj: "i \<notin> set (concat (map (\<lambda>b. map fst (filter (\<lambda>p. snd p = b) ps)) ks))"
    if "i \<in> set (map fst (filter (\<lambda>p. snd p = k) ps))" for i
  proof
    assume "i \<in> set (concat (map (\<lambda>b. map fst (filter (\<lambda>p. snd p = b) ps)) ks))"
    then obtain b where b: "b \<in> set ks" "(i, b) \<in> set ps" by auto
    from that have "(i, k) \<in> set ps" by auto
    with b(2) have "b = k" using inj_onD [OF inj, of "(i, b)" "(i, k)"] by simp
    with b(1) Cons.prems show False by simp
  qed
  from Cons d1 disj show ?case by auto
qed

lemma set_by_block:
  "set (concat (map (\<lambda>b. map fst (filter (\<lambda>p. snd p = b) ps)) ks)) =
     fst ` {p \<in> set ps. snd p \<in> set ks}"
  by auto

lemma group_labels_partition:
  assumes "\<forall>b \<in> set found_blocks. 0 \<le> b \<and> b < int (length found_blocks)"
  shows "\<exists>sets. group_labels found_blocks = Inr sets \<and> [] \<notin> set (yielded sets)
           \<and> distinct (concat (yielded sets))
           \<and> set (concat (yielded sets)) = {0..<length found_blocks}"
proof -
  let ?n = "length found_blocks"
  let ?ks = "map int [0..<?n]"
  let ?ls0 = "map (\<lambda>b. (int b, [] :: nat list)) [0..<?n]"
  let ?ps = "enumerate 0 found_blocks"
  let ?f = "\<lambda>b. map fst (filter (\<lambda>p. snd p = b) ?ps)"
  have k0: "map fst ?ls0 = ?ks" by (simp add: comp_def)
  have dk: "distinct ?ks" by (simp add: distinct_map)
  have d0: "distinct (map fst ?ls0)" unfolding k0 by (rule dk)
  have inks: "b \<in> set ?ks" if "b \<in> set found_blocks" for b
  proof -
    from assms that have "0 \<le> b" "b < int ?n" by auto
    then have "b = int (nat b)" "nat b < ?n" by auto
    then show ?thesis by (metis atLeastLessThan_iff image_eqI le0 set_map set_upt)
  qed
  have s0: "snd ` set ?ps \<subseteq> fst ` set ?ls0"
    using inks by (auto simp: in_set_enumerate_eq k0 [symmetric] simp flip: set_map)
  have vals: "map snd (map (\<lambda>(b, l). (b, l @ ?f b)) ?ls0) = map ?f ?ks"
    by (simp add: comp_def)
  let ?sets = "Filter (\<lambda>x. length x > 0) (map ?f ?ks)"
  let ?cs = "filter (\<lambda>x. length x > 0) (map ?f ?ks)"
  have "group_labels found_blocks =
      Inr (Filter (\<lambda>x. length x > 0) (map snd (map (\<lambda>(b, l). (b, l @ ?f b)) ?ls0)))"
    by (simp only: group_labels_def Let_def assign_labels_result [OF d0 s0] sum.case)
  then have res: "group_labels found_blocks = Inr ?sets"
    unfolding vals .
  have y: "yielded ?sets = ?cs" by simp
  have ne: "[] \<notin> set ?cs" by auto
  have dps: "distinct (map fst ?ps)" by simp
  have dist: "distinct (concat ?cs)"
    unfolding concat_nonempty by (rule distinct_by_block [OF dps dk])
  have all: "{p \<in> set ?ps. snd p \<in> set ?ks} = set ?ps"
  proof -
    have "snd p \<in> set ?ks" if "p \<in> set ?ps" for p
    proof -
      from that have "fst p < ?n" "snd p = found_blocks ! fst p"
        by (simp_all add: in_set_enumerate_eq)
      then have "snd p \<in> set found_blocks" by simp
      then show ?thesis by (rule inks)
    qed
    then show ?thesis by blast
  qed
  have "set (concat ?cs) = fst ` {p \<in> set ?ps. snd p \<in> set ?ks}"
    unfolding concat_nonempty by (rule set_by_block)
  also have "\<dots> = fst ` set ?ps"
    unfolding all ..
  also have "\<dots> = {0..<?n}"
    by (simp flip: set_map)
  finally have "set (concat ?cs) = {0..<?n}" .
  with res ne dist show ?thesis unfolding y [symmetric] by blast
qed

section \<open>Model selection and the result of \<^verbatim>\<open>fit_predict\<close>\<close>

text \<open>\<^verbatim>\<open>select_model\<close> never fails on a lookup: it runs both settings and compares
  the two entries of the criterion dictionary, or runs the forced setting alone.
  \<^verbatim>\<open>fit_predict\<close> then always ends in an exception, since \<^verbatim>\<open>len\<close> is applied to
  the filter object.\<close>

lemma len_filter_raises: "len_filter sets = Inl TypeError"
  by (cases sets) simp

lemma predict_communities_simps:
  fixes gt :: "('st, 'f) graph_tool"
  assumes "run = run_inference gt g
      (if truthy (builder_is_weighted (the_graph_builder self)) then Some ws else None)
      (allow_overlap self)"
  shows "state_dict (predict_communities gt self g ws dc m) = (state_dict m)(dc \<mapsto> inf_state (run dc))"
    and "S_mf_dict (predict_communities gt self g ws dc m) = (S_mf_dict m)(dc \<mapsto> inf_S_mf (run dc))"
    and "S_bethe_dict (predict_communities gt self g ws dc m) = (S_bethe_dict m)(dc \<mapsto> inf_S_bethe (run dc))"
    and "L_dict (predict_communities gt self g ws dc m) = (L_dict m)(dc \<mapsto> inf_L (run dc))"
  by (simp_all add: predict_communities_def Let_def assms)

lemma select_model_result:
  fixes gt :: "('st, 'f::ord) graph_tool"
  assumes run: "run = run_inference gt g
      (if truthy (builder_is_weighted (the_graph_builder self)) then Some ws else None)
      (allow_overlap self)"
    and crit: "crit = (\<lambda>dc. if model_selection_criterium self = ''bethe''
                       then inf_S_bethe (run dc) else inf_S_mf (run dc))"
    and which: "which = (case use_degree_corr self of
                           None \<Rightarrow> crit True < crit False | Some dc \<Rightarrow> dc)"
  shows "\<exists>m. select_model gt self g ws = Inr (m, which)
    \<and> dom (state_dict m) = (case use_degree_corr self of None \<Rightarrow> {True, False} | Some dc \<Rightarrow> {dc})
    \<and> (\<forall>dc \<in> dom (state_dict m). state_dict m dc = Some (inf_state (run dc)))"
proof (cases "use_degree_corr self")
  case None
  let ?m0 = "\<lparr>state_dict = Map.empty, S_bethe_dict = Map.empty, S_mf_dict = Map.empty,
      L_dict = Map.empty\<rparr> :: ('st, 'f) models"
  let ?m = "predict_communities gt self g ws False (predict_communities gt self g ws True ?m0)"
  note p = predict_communities_simps [OF run]
  have "select_model gt self g ws = Inr (?m, which)"
    by (simp add: select_model_def None Let_def p which crit)
  moreover have "dom (state_dict ?m) = {True, False}"
    by (auto simp: p)
  moreover have "\<forall>dc \<in> dom (state_dict ?m). state_dict ?m dc = Some (inf_state (run dc))"
    by (auto simp: p)
  ultimately show ?thesis by (simp add: None)
next
  case (Some d)
  let ?m0 = "\<lparr>state_dict = Map.empty, S_bethe_dict = Map.empty, S_mf_dict = Map.empty,
      L_dict = Map.empty\<rparr> :: ('st, 'f) models"
  let ?m = "predict_communities gt self g ws d ?m0"
  note p = predict_communities_simps [OF run]
  have "select_model gt self g ws = Inr (?m, which)"
    by (simp add: select_model_def Some Let_def which)
  moreover have "dom (state_dict ?m) = {d}"
    by (auto simp: p)
  moreover have "\<forall>dc \<in> dom (state_dict ?m). state_dict ?m dc = Some (inf_state (run dc))"
    by (auto simp: p)
  ultimately show ?thesis by (simp add: Some)
qed

lemma fit_predict_never_returns:
  fixes gt :: "('st, 'f::ord) graph_tool"
  shows "fit_predict gt self X y = Inl KeyError \<or> fit_predict gt self X y = Inl TypeError"
proof -
  obtain g ws where build: "build_graph_instance self (snd (shape y)) y = (g, ws)"
    by (cases "build_graph_instance self (snd (shape y)) y")
  define run where "run = run_inference gt g
      (if truthy (builder_is_weighted (the_graph_builder self)) then Some ws else None)
      (allow_overlap self)"
  define crit where "crit = (\<lambda>dc. if model_selection_criterium self = ''bethe''
                       then inf_S_bethe (run dc) else inf_S_mf (run dc))"
  define which where "which = (case use_degree_corr self of
                           None \<Rightarrow> crit True < crit False | Some dc \<Rightarrow> dc)"
  from select_model_result [OF run_def crit_def which_def]
  obtain m where sel: "select_model gt self g ws = Inr (m, which)"
    and d: "dom (state_dict m) =
      (case use_degree_corr self of None \<Rightarrow> {True, False} | Some dc \<Rightarrow> {dc})"
    and s: "\<forall>dc \<in> dom (state_dict m). state_dict m dc = Some (inf_state (run dc))"
    by blast
  have "which \<in> dom (state_dict m)"
    unfolding d by (cases "use_degree_corr self") (auto simp: which_def)
  with s have st: "state_dict m which = Some (inf_state (run which))" by blast
  have assign: "assign_labels ps ls = Inl e \<Longrightarrow> e = KeyError" for ps ls e
    by (induction ps ls rule: assign_labels.induct) (auto split: option.splits)
  have "group_labels bs = Inl e \<Longrightarrow> e = KeyError" for bs e
    by (auto simp: group_labels_def Let_def split: sum.splits dest: assign)
  then show ?thesis
    by (cases "group_labels (get_blocks gt (inf_state (run which)))")
      (auto simp: fit_predict_def build sel st len_filter_raises)
qed

section \<open>The claims about \<^verbatim>\<open>fit_predict\<close>\<close>

text \<open>Claim C1 is not met by the code.  For the three-label example and a library
  that puts labels \<open>0\<close> and \<open>1\<close> in one block and label \<open>2\<close> in another, without
  overlap, \<^verbatim>\<open>fit_predict\<close> returns nothing: \<^verbatim>\<open>len(self.label_sets)\<close> raises
  \<^verbatim>\<open>TypeError\<close>.  The filter object assigned just before would have yielded the
  clusters \<open>[0, 1]\<close> and \<open>[2]\<close> the claim describes.\<close>

theorem fit_predict_raises_TypeError:
  "fit_predict
       \<lparr>run_inference = (\<lambda>g w overlap deg_corr.
            \<lparr>inf_state = (if deg_corr then [0, 0, 1] else [0, 1, 1]),
             inf_S_mf = (if deg_corr then 1 else 2 :: int),
             inf_S_bethe = (if deg_corr then 5 else 3),
             inf_L = (if deg_corr then - 9 else - 8)\<rparr>),
        get_blocks = (\<lambda>s. s)\<rparr>
       \<lparr>the_graph_builder = cooccurence_graph_builder
          \<lparr>is_weighted = PyBool True, include_self_edges = PyBool False,
           normalize_self_edges = PyBool False, label_count = None, edge_map = None\<rparr>,
        allow_overlap = False, use_degree_corr = None,
        model_selection_criterium = ''mean_field''\<rparr>
       () \<lparr>shape = (3, 3), entries = [[1, 0, 1], [0, 1, 1], [1, 1, 0]]\<rparr>
     = Inl TypeError
   \<and> map_sum id yielded (group_labels [0, 0, 1]) = Inr [[0, 1], [2]]"
proof
  let ?c = "\<lparr>is_weighted = PyBool True, include_self_edges = PyBool False,
           normalize_self_edges = PyBool False, label_count = None, edge_map = None\<rparr>"
  let ?y = "\<lparr>shape = (3, 3), entries = [[1, 0, 1], [0, 1, 1], [1, 1, 0]]\<rparr>"
  let ?self = "\<lparr>the_graph_builder = cooccurence_graph_builder ?c,
        allow_overlap = False, use_degree_corr = None,
        model_selection_criterium = ''mean_field''\<rparr>"
  let ?inf = "\<lambda>deg_corr. \<lparr>inf_state = (if deg_corr then [0, 0, 1] else [0, 1, 1 :: int]),
             inf_S_mf = (if deg_corr then 1 else 2 :: int),
             inf_S_bethe = (if deg_corr then 5 else 3),
             inf_L = (if deg_corr then - 9 else - 8)\<rparr>"
  let ?gt = "\<lparr>run_inference = (\<lambda>g w overlap. ?inf), get_blocks = (\<lambda>s. s)\<rparr>"
  obtain g ws where build: "build_graph_instance ?self (snd (shape ?y)) ?y = (g, ws)"
    by (cases "build_graph_instance ?self (snd (shape ?y)) ?y")
  have "\<forall>b \<in> set [0, 0, 1 :: int]. 0 \<le> b \<and> b < int (length [0, 0, 1 :: int])"
    by simp
  from group_labels_partition [OF this]
  obtain sets where sets: "group_labels [0, 0, 1] = Inr sets" by blast
  show "fit_predict ?gt ?self () ?y = Inl TypeError"
    by (simp add: fit_predict_def build select_model_def predict_communities_def Let_def
        sets len_filter_raises)
  show "map_sum id yielded (group_labels [0, 0, 1]) = Inr [[0, 1], [2]]"
    by code_simp
qed

text \<open>Claim C2 is not met by the code.  With \<^verbatim>\<open>use_degree_corr=None\<close> the choice
  compares the entropy entries \<^verbatim>\<open>S_mf_\<close> (or \<^verbatim>\<open>S_bethe_\<close>) alone and never reads
  \<^verbatim>\<open>L_\<close>.  Two library outcomes with the same model evidence \<open>L + S\<close> for the
  degree-corrected run, and the same plain run, are decided differently: the
  degree-corrected model is chosen in the first and the plain one in the second.\<close>

theorem selection_ignores_description_length:
  "model_evidence \<lparr>inf_state = (), inf_S_mf = 1 :: int, inf_S_bethe = 1, inf_L = 0\<rparr>
     = model_evidence \<lparr>inf_state = (), inf_S_mf = 3 :: int, inf_S_bethe = 3, inf_L = - 2\<rparr>
   \<and> map_sum id snd (select_model
       \<lparr>run_inference = (\<lambda>g w overlap deg_corr.
            if deg_corr then \<lparr>inf_state = (), inf_S_mf = 1 :: int, inf_S_bethe = 1, inf_L = 0\<rparr>
            else \<lparr>inf_state = (), inf_S_mf = 2, inf_S_bethe = 2, inf_L = 0\<rparr>),
        get_blocks = (\<lambda>s. [])\<rparr>
       \<lparr>the_graph_builder = \<lparr>transform = (\<lambda>y. []), builder_is_weighted = PyBool False\<rparr>,
        allow_overlap = False, use_degree_corr = None,
        model_selection_criterium = ''mean_field''\<rparr>
       (Graph False) new_edge_property) = Inr True
   \<and> map_sum id snd (select_model
       \<lparr>run_inference = (\<lambda>g w overlap deg_corr.
            if deg_corr then \<lparr>inf_state = (), inf_S_mf = 3 :: int, inf_S_bethe = 3, inf_L = - 2\<rparr>
            else \<lparr>inf_state = (), inf_S_mf = 2, inf_S_bethe = 2, inf_L = 0\<rparr>),
        get_blocks = (\<lambda>s. [])\<rparr>
       \<lparr>the_graph_builder = \<lparr>transform = (\<lambda>y. []), builder_is_weighted = PyBool False\<rparr>,
        allow_overlap = False, use_degree_corr = None,
        model_selection_criterium = ''mean_field''\<rparr>
       (Graph False) new_edge_property) = Inr False"
  by (simp add: model_evidence_def select_model_def predict_communities_def Let_def)

end
